theory Spec2Isabelle
  imports Main "HOL-Library.Sublist"
begin

section \<open>The document-query browser client (frontend/script.js)\<close>

text \<open>
  The script wires two click handlers, \<open>handleUpload\<close> and \<open>handleQuery\<close>, to a page,
  keeps one variable \<open>sessionId\<close>, talks to a fixed backend with \<open>fetch\<close> and renders
  the answer with \<open>displayResults\<close>. The embedding follows the script function by
  function: the page elements the handlers read and write and the variable \<open>sessionId\<close>
  are the fields of one record, the effects on the outside (requests handed to \<open>fetch\<close>,
  \<open>alert\<close> boxes) are appended to logs in that record, and what the outside gives back
  (the clock, the outcome of a request) is an argument of the handler.
\<close>

subsection \<open>Strings\<close>

text \<open>
  Text is a \<open>string\<close>, one \<open>char\<close> for each code unit of the script's string: the
  embedding covers the strings whose code units are below 256 (ASCII and Latin-1). On
  these \<open>String.prototype.toLowerCase\<close> maps \<open>A..Z\<close> (65 to 90) and the capital
  letters 192 to 222, the multiplication sign 215 apart, to the unit 32 above, and
  leaves every other unit alone.
\<close>

definition toLowerCase_char :: "char \<Rightarrow> char" where
  "toLowerCase_char c =
     (let n = (of_char c :: nat)
      in if (65 \<le> n \<and> n \<le> 90) \<or> (192 \<le> n \<and> n \<le> 222 \<and> n \<noteq> 215)
         then char_of (n + 32) else c)"

definition toLowerCase :: "string \<Rightarrow> string" where
  "toLowerCase s = map toLowerCase_char s"

text \<open>
  \<open>s.includes(search)\<close>: whether \<open>search\<close> occurs in \<open>s\<close> at some index, scanning from
  the left; the empty string occurs everywhere.
\<close>

fun js_includes :: "string \<Rightarrow> string \<Rightarrow> bool" where
  "js_includes [] search = (search = [])"
| "js_includes (c # cs) search = (prefix search (c # cs) \<or> js_includes cs search)"

text \<open>
  \<open>String.prototype.trim\<close> strips white space and line terminators from both ends;
  below 256 these are TAB, LF, VT, FF, CR, SPACE and the no-break space 160.
\<close>

definition is_whitespace :: "char \<Rightarrow> bool" where
  "is_whitespace c = ((of_char c :: nat) \<in> {9, 10, 11, 12, 13, 32, 160})"

definition trim :: "string \<Rightarrow> string" where
  "trim s = rev (dropWhile is_whitespace (rev (dropWhile is_whitespace s)))"

text \<open>
  How a template literal prints an integer such as \<open>Date.now()\<close>, a count of
  milliseconds (of magnitude far below \<open>10^21\<close>, where the exponent form would begin):
  a minus sign when it is negative, then its decimal digits.
\<close>

definition digit :: "nat \<Rightarrow> char" where
  "digit d = ''0123456789'' ! d"

fun decimal_digits :: "nat \<Rightarrow> string" where
  "decimal_digits n =
     (if 10 \<le> n then decimal_digits (n div 10) @ [digit (n mod 10)] else [digit n])"

definition number_toString :: "int \<Rightarrow> string" where
  "number_toString i =
     (if 0 \<le> i then decimal_digits (nat i) else CHR ''-'' # decimal_digits (nat (- i)))"

text \<open>
  Truthiness of an optional text, as \<open>if (x)\<close>, \<open>!x\<close> and \<open>x || d\<close> test it: \<open>undefined\<close>,
  \<open>null\<close> (both \<open>None\<close>) and the empty string are falsy.
\<close>

definition truthy :: "string option \<Rightarrow> bool" where
  "truthy x = (case x of None \<Rightarrow> False | Some s \<Rightarrow> s \<noteq> [])"

definition or_else :: "string option \<Rightarrow> string \<Rightarrow> string" where
  "or_else x d = (case x of None \<Rightarrow> d | Some s \<Rightarrow> if s \<noteq> [] then s else d)"

subsection \<open>The query response and the renderer \<open>displayResults\<close>\<close>

text \<open>
  \<open>displayResults\<close> reads \<open>data.decision\<close>, \<open>data.justification\<close>, \<open>data.conditions\<close> and
  \<open>data.referenced_clauses\<close>, and of each clause \<open>clause_number\<close>, \<open>document_name\<close> and
  \<open>text\<close>. Here every one of these is a text, and \<open>referenced_clauses\<close> an array of
  clauses; the fields the script tests before use are optional, a field that is
  missing or \<open>null\<close> being \<open>None\<close>. A body of another shape (a decision that is not a
  string, say, on which \<open>toLowerCase\<close> throws) is outside the embedding. (\<open>text\<close> is a
  keyword of the theory language, so that field is \<open>clause_text\<close>.)
\<close>

record clause =
  clause_number :: "string option"
  document_name :: string
  clause_text :: string

record query_response =
  decision :: string
  justification :: string
  conditions :: "string option"
  referenced_clauses :: "clause list option"

text \<open>
  Lines 107 to 112: the variable \<open>decisionClass\<close> starts as \<open>'Information'\<close>; the first
  \<open>if\<close> tests \<open>'approved'\<close> and \<open>'covered'\<close>, its \<open>else if\<close> tests \<open>'rejected'\<close> and
  \<open>'not'\<close>.
\<close>

definition decisionClass :: "string \<Rightarrow> string" where
  "decisionClass d =
     (if js_includes (toLowerCase d) ''approved'' \<or> js_includes (toLowerCase d) ''covered''
      then ''Approved''
      else if js_includes (toLowerCase d) ''rejected'' \<or> js_includes (toLowerCase d) ''not''
      then ''Rejected''
      else ''Information'')"

text \<open>The body of the \<open>forEach\<close> callback, lines 130 to 135: \<open>html += `...`\<close>.\<close>

definition append_clause :: "string \<Rightarrow> clause \<Rightarrow> string" where
  \<open>append_clause html c =
     html @ ''\<newline>                    <div class="referenced-clause">\<newline>                        <strong>Clause ''
       @ or_else (clause_number c) ''N/A'' @ '' (from '' @ document_name c
       @ '')</strong>\<newline>                        <p>"'' @ clause_text c
       @ ''"</p>\<newline>                    </div>\<newline>                ''\<close>

text \<open>
  The markup \<open>displayResults\<close> builds in its variable \<open>html\<close>, lines 114 to 137; the
  \<open>forEach\<close> loop is a left fold over the clauses in array order.
\<close>

definition displayResults_html :: "query_response \<Rightarrow> string" where
  \<open>displayResults_html data =
     (let html = ''\<newline>            <div class="decision '' @ decisionClass (decision data) @ ''">''
                   @ decision data
                   @ ''</div>\<newline>            <h3>Justification</h3>\<newline>            <p>''
                   @ justification data @ ''</p>\<newline>        '';
          html = (if truthy (conditions data)
                  then html @ ''\<newline>                <h3>Conditions</h3>\<newline>                <p>''
                         @ the (conditions data) @ ''</p>\<newline>            ''
                  else html)
      in case referenced_clauses data of
           None \<Rightarrow> html
         | Some cs \<Rightarrow>
             if length cs > 0
             then foldl append_clause (html @ ''<h3>Referenced Clauses</h3>'') cs
             else html)\<close>

subsection \<open>The page, the session variable and the outside world\<close>

datatype js_file = File string

datatype form_value = FileValue js_file | TextValue string

datatype request_body = FormData "(string \<times> form_value) list" | JsonObject "(string \<times> string) list"

text \<open>
  One call of \<open>fetch\<close>: the address, the \<open>method\<close> and \<open>headers\<close> options and the body.
  For the query the body is the object handed to \<open>JSON.stringify\<close>.
\<close>

record request =
  url :: string
  http_method :: string
  headers :: "(string \<times> string) list"
  body :: request_body

text \<open>
  The state the handlers work on: the variable \<open>sessionId\<close> (\<open>null\<close> is \<open>None\<close>), the
  properties of the page elements of lines 3 to 11 that the script reads or writes,
  the element that holds the focus, and the logs of \<open>alert\<close> and \<open>fetch\<close> calls.
\<close>

record state =
  sessionId :: "string option"
  fileInput_files :: "js_file list"
  questionInput_value :: string
  uploadStatus_textContent :: string
  uploadStatus_color :: string
  queryCard_display :: string
  resultsCard_display :: string
  loader_display :: string
  resultsContent_innerHTML :: string
  activeElement :: "string option"
  alerts :: "string list"
  requests :: "request list"

text \<open>
  How an awaited request settles. \<open>fetch\<close> rejects with an error (its message), or
  resolves to a response whose \<open>ok\<close> flag is false or true; \<open>response.json()\<close> then
  rejects with an error (its message) or resolves to the parsed body. A failure body
  is read for its \<open>detail\<close>, an upload body for its \<open>message\<close>.
\<close>

datatype 'a json_result = JsonRejects string | JsonValue 'a

record error_body =
  detail :: "string option"

record upload_body =
  message :: string

datatype 'a fetch_outcome =
    FetchRejects string
  | ResponseNotOk "error_body json_result"
  | ResponseOk "'a json_result"

definition API_BASE_URL :: string where
  "API_BASE_URL = ''http://127.0.0.1:8000''"

definition displayResults :: "query_response \<Rightarrow> state \<Rightarrow> state" where
  "displayResults data s = s\<lparr>resultsContent_innerHTML := displayResults_html data\<rparr>"

subsection \<open>\<open>handleUpload\<close>\<close>

text \<open>
  An \<open>async\<close> function runs up to its first \<open>await\<close> when it is called and goes on when
  the awaited promise settles. \<open>handleUpload_start\<close> is lines 23 to 43, up to the call of
  \<open>fetch\<close>; it returns the request it issued, or \<open>None\<close> when it returned early.
  \<open>handleUpload_settle\<close> is the rest, lines 45 to 59, given how the request settled:
  the \<open>try\<close> body and the \<open>catch\<close> clause.
\<close>

definition upload_request :: "js_file \<Rightarrow> string \<Rightarrow> request" where
  "upload_request f sid =
     \<lparr>url = API_BASE_URL @ ''/upload_document/'', http_method = ''POST'', headers = [],
      body = FormData [(''file'', FileValue f), (''session_id'', TextValue sid)]\<rparr>"

definition handleUpload_start :: "int \<Rightarrow> state \<Rightarrow> state \<times> request option" where
  "handleUpload_start now s =
     (case fileInput_files s of
        [] \<Rightarrow>
          (s\<lparr>uploadStatus_textContent := ''Please select a file first.'',
             uploadStatus_color := ''red''\<rparr>, None)
      | f # _ \<Rightarrow>
          (let sid = ''session_'' @ number_toString now;
               s1 = s\<lparr>sessionId := Some sid,
                      uploadStatus_textContent := ''Uploading and processing...'',
                      uploadStatus_color := ''orange''\<rparr>;
               req = upload_request f sid
           in (s1\<lparr>requests := requests s1 @ [req]\<rparr>, Some req)))"

text \<open>
  The \<open>try\<close> body after the \<open>await\<close>, lines 45 to 54: \<open>Inl\<close> carries the message of the
  error thrown (by \<open>fetch\<close>, by \<open>response.json()\<close>, or by the \<open>throw\<close> of line 47),
  \<open>Inr\<close> the state when the body ran to its end.
\<close>

definition handleUpload_try :: "upload_body fetch_outcome \<Rightarrow> state \<Rightarrow> string + state" where
  "handleUpload_try outcome s =
     (case outcome of
        FetchRejects msg \<Rightarrow> Inl msg
      | ResponseNotOk (JsonRejects msg) \<Rightarrow> Inl msg
      | ResponseNotOk (JsonValue errorData) \<Rightarrow> Inl (or_else (detail errorData) ''Upload failed'')
      | ResponseOk (JsonRejects msg) \<Rightarrow> Inl msg
      | ResponseOk (JsonValue data) \<Rightarrow>
          Inr (s\<lparr>uploadStatus_textContent := message data,
                 uploadStatus_color := ''green'',
                 queryCard_display := ''block'',
                 activeElement := Some ''question-input''\<rparr>))"

definition handleUpload_settle :: "upload_body fetch_outcome \<Rightarrow> state \<Rightarrow> state" where
  "handleUpload_settle outcome s =
     (case handleUpload_try outcome s of
        Inr s1 \<Rightarrow> s1
      | Inl msg \<Rightarrow>
          s\<lparr>uploadStatus_textContent := ''Error: '' @ msg, uploadStatus_color := ''red''\<rparr>)"

definition handleUpload :: "int \<Rightarrow> upload_body fetch_outcome \<Rightarrow> state \<Rightarrow> state" where
  "handleUpload now outcome s =
     (case handleUpload_start now s of
        (s1, None) \<Rightarrow> s1
      | (s1, Some _) \<Rightarrow> handleUpload_settle outcome s1)"

subsection \<open>\<open>handleQuery\<close>\<close>

text \<open>
  \<open>handleQuery_start\<close> is lines 63 to 89, up to the call of \<open>fetch\<close>;
  \<open>handleQuery_settle\<close> is lines 91 to 103, given how the request settled: the \<open>try\<close>
  body, the \<open>catch\<close> clause, and the \<open>finally\<close> clause, which runs last on every path.
\<close>

definition query_request :: "string \<Rightarrow> string \<Rightarrow> request" where
  "query_request sid question =
     \<lparr>url = API_BASE_URL @ ''/query/'', http_method = ''POST'',
      headers = [(''Content-Type'', ''application/json'')],
      body = JsonObject [(''session_id'', sid), (''question'', question)]\<rparr>"

definition handleQuery_start :: "state \<Rightarrow> state \<times> request option" where
  "handleQuery_start s =
     (let question = trim (questionInput_value s) in
      if question = [] then (s\<lparr>alerts := alerts s @ [''Please enter a question.'']\<rparr>, None)
      else if \<not> truthy (sessionId s)
      then (s\<lparr>alerts := alerts s @ [''Please upload a document first.'']\<rparr>, None)
      else
        (let s1 = s\<lparr>resultsCard_display := ''block'', loader_display := ''block'',
                      resultsContent_innerHTML := ''''\<rparr>;
             req = query_request (the (sessionId s)) question
         in (s1\<lparr>requests := requests s1 @ [req]\<rparr>, Some req)))"

text \<open>
  The \<open>try\<close> body after the \<open>await\<close>, lines 91 to 97, with \<open>Inl\<close> and \<open>Inr\<close> as for the
  upload.
\<close>

definition handleQuery_try :: "query_response fetch_outcome \<Rightarrow> state \<Rightarrow> string + state" where
  "handleQuery_try outcome s =
     (case outcome of
        FetchRejects msg \<Rightarrow> Inl msg
      | ResponseNotOk (JsonRejects msg) \<Rightarrow> Inl msg
      | ResponseNotOk (JsonValue errorData) \<Rightarrow> Inl (or_else (detail errorData) ''Query failed'')
      | ResponseOk (JsonRejects msg) \<Rightarrow> Inl msg
      | ResponseOk (JsonValue data) \<Rightarrow> Inr (displayResults data s))"

definition handleQuery_settle :: "query_response fetch_outcome \<Rightarrow> state \<Rightarrow> state" where
  \<open>handleQuery_settle outcome s =
     (let s1 = (case handleQuery_try outcome s of
                  Inr s1 \<Rightarrow> s1
                | Inl msg \<Rightarrow>
                    s\<lparr>resultsContent_innerHTML :=
                        ''<p style="color:red;">Error: '' @ msg @ ''</p>''\<rparr>)
      in s1\<lparr>loader_display := ''none''\<rparr>)\<close>

definition handleQuery :: "query_response fetch_outcome \<Rightarrow> state \<Rightarrow> state" where
  "handleQuery outcome s =
     (case handleQuery_start s of
        (s1, None) \<Rightarrow> s1
      | (s1, Some _) \<Rightarrow> handleQuery_settle outcome s1)"

subsection \<open>An example page\<close>

text \<open>
  The page just after the script has run: \<open>sessionId\<close> is \<open>null\<close> (line 14), no request
  or alert has happened. The values of the page elements come from the markup, which
  is not part of the script; the ones here are an example.
\<close>

definition example_page :: state where
  "example_page =
     \<lparr>sessionId = None, fileInput_files = [], questionInput_value = '''',
      uploadStatus_textContent = '''', uploadStatus_color = '''',
      queryCard_display = ''none'', resultsCard_display = ''none'',
      loader_display = ''none'', resultsContent_innerHTML = '''',
      activeElement = None, alerts = [], requests = []\<rparr>"

definition page_with_file :: state where
  "page_with_file = example_page\<lparr>fileInput_files := [File ''policy.pdf'']\<rparr>"

definition page_with_session :: state where
  "page_with_session =
     example_page\<lparr>sessionId := Some ''session_1700000000000'',
                  questionInput_value := ''  Is knee surgery covered? ''\<rparr>"

definition example_response :: query_response where
  "example_response =
     \<lparr>decision = ''Approved'', justification = ''In scope.'',
      conditions = Some ''Pre-authorisation required.'',
      referenced_clauses =
        Some [\<lparr>clause_number = Some ''4.2'', document_name = ''policy.pdf'', clause_text = ''Surgery''\<rparr>,
              \<lparr>clause_number = None, document_name = ''rider.pdf'', clause_text = ''Knee''\<rparr>]\<rparr>"

subsection \<open>The rules of the specification, for comparison\<close>

text \<open>
  The definitions of this subsection are not taken from the script. They write down
  what the specification says the renderer shows, in the specification's own terms,
  so that the script's functions can be compared with them.
\<close>

datatype category = Positive | Negative | Neutral

text \<open>The style class by which the page shows each category.\<close>

fun css_class :: "category \<Rightarrow> string" where
  "css_class Positive = ''Approved''"
| "css_class Negative = ''Rejected''"
| "css_class Neutral = ''Information''"

text \<open>
  A text contains a keyword case-insensitively when, at some index, the piece of the
  keyword's length equals the keyword up to the case of its letters.
\<close>

definition contains_ignoring_case :: "string \<Rightarrow> string \<Rightarrow> bool" where
  "contains_ignoring_case txt kw =
     (\<exists>i \<in> {0..length txt}. toLowerCase (take (length kw) (drop i txt)) = toLowerCase kw)"

definition spec_category :: "string \<Rightarrow> category" where
  "spec_category txt =
     (if contains_ignoring_case txt ''approved'' \<or> contains_ignoring_case txt ''covered''
      then Positive
      else if contains_ignoring_case txt ''rejected'' \<or> contains_ignoring_case txt ''not''
      then Negative
      else Neutral)"

text \<open>
  The decision with its justification, the conditions when there are any, and one
  referenced clause as shown: a label, the document name and the quoted text.
\<close>

definition clause_markup :: "string \<Rightarrow> clause \<Rightarrow> string" where
  \<open>clause_markup label c =
     ''\<newline>                    <div class="referenced-clause">\<newline>                        <strong>Clause ''
       @ label @ '' (from '' @ document_name c
       @ '')</strong>\<newline>                        <p>"'' @ clause_text c
       @ ''"</p>\<newline>                    </div>\<newline>                ''\<close>

text \<open>The label as the specification words it: the clause number, or a placeholder when absent.\<close>

definition spec_clause_label :: "clause \<Rightarrow> string" where
  "spec_clause_label c = (case clause_number c of None \<Rightarrow> ''N/A'' | Some n \<Rightarrow> n)"

text \<open>The label with the placeholder standing in for an absent and for an empty clause number.\<close>

definition shown_clause_label :: "clause \<Rightarrow> string" where
  "shown_clause_label c =
     (case clause_number c of None \<Rightarrow> ''N/A'' | Some n \<Rightarrow> if n = [] then ''N/A'' else n)"

definition decision_section :: "query_response \<Rightarrow> string" where
  \<open>decision_section data =
     ''\<newline>            <div class="decision '' @ decisionClass (decision data) @ ''">''
       @ decision data
       @ ''</div>\<newline>            <h3>Justification</h3>\<newline>            <p>''
       @ justification data @ ''</p>\<newline>        ''\<close>

definition conditions_section :: "query_response \<Rightarrow> string" where
  \<open>conditions_section data =
     (case conditions data of
        None \<Rightarrow> []
      | Some t \<Rightarrow>
          if t = [] then []
          else ''\<newline>                <h3>Conditions</h3>\<newline>                <p>'' @ t
                 @ ''</p>\<newline>            '')\<close>

text \<open>
  The section of referenced clauses: nothing when the sequence is absent or empty,
  else the heading and the clauses in the order received, each with the given label.
\<close>

definition clauses_section :: "(clause \<Rightarrow> string) \<Rightarrow> query_response \<Rightarrow> string" where
  "clauses_section label data =
     (case referenced_clauses data of
        None \<Rightarrow> []
      | Some cs \<Rightarrow>
          if cs = [] then []
          else ''<h3>Referenced Clauses</h3>'' @ concat (map (\<lambda>c. clause_markup (label c) c) cs))"

text \<open>A response whose one clause carries an empty clause number.\<close>

definition response_with_empty_number :: query_response where
  "response_with_empty_number =
     \<lparr>decision = ''Approved'', justification = ''In scope.'', conditions = None,
      referenced_clauses =
        Some [\<lparr>clause_number = Some [], document_name = ''policy.pdf'', clause_text = ''Surgery''\<rparr>]\<rparr>"

section \<open>Properties\<close>

subsection \<open>The classification of the decision text\<close>

lemma js_includes_sublist: "js_includes s k = sublist k s"
  by (induction s) (simp_all add: sublist_Cons_right)

lemma sublist_at_index:
  "sublist k s \<longleftrightarrow> (\<exists>i \<in> {0..length s}. take (length k) (drop i s) = k)"
proof
  assume "sublist k s"
  then obtain ps ss where s: "s = ps @ k @ ss" by (auto simp: sublist_def)
  have "length ps \<in> {0..length s}" by (simp add: s)
  moreover have "take (length k) (drop (length ps) s) = k" by (simp add: s)
  ultimately show "\<exists>i \<in> {0..length s}. take (length k) (drop i s) = k" by blast
next
  assume "\<exists>i \<in> {0..length s}. take (length k) (drop i s) = k"
  then obtain i where i: "take (length k) (drop i s) = k" by blast
  have "drop i s = take (length k) (drop i s) @ drop (length k) (drop i s)"
    by (simp only: append_take_drop_id)
  then have "s = take i s @ take (length k) (drop i s) @ drop (length k) (drop i s)"
    by (metis append_take_drop_id)
  with i have "s = take i s @ k @ drop (length k) (drop i s)" by simp
  then show "sublist k s" unfolding sublist_def by blast
qed

lemma includes_toLowerCase:
  assumes "toLowerCase kw = kw"
  shows "js_includes (toLowerCase txt) kw = contains_ignoring_case txt kw"
  using assms
  by (simp add: js_includes_sublist sublist_at_index contains_ignoring_case_def toLowerCase_def
      take_map drop_map)

lemma keywords_lower_case:
  "toLowerCase ''approved'' = ''approved''" "toLowerCase ''covered'' = ''covered''"
  "toLowerCase ''rejected'' = ''rejected''" "toLowerCase ''not'' = ''not''"
  by (simp_all add: toLowerCase_def toLowerCase_char_def)

lemma approved_or_covered_first:
  "js_includes (toLowerCase d) ''approved'' \<or> js_includes (toLowerCase d) ''covered''
     \<Longrightarrow> decisionClass d = css_class Positive"
  by (simp add: decisionClass_def)

lemma append_clause_markup:
  "append_clause h c = h @ clause_markup (shown_clause_label c) c"
  by (cases "clause_number c")
     (simp_all add: append_clause_def clause_markup_def shown_clause_label_def or_else_def)

lemma foldl_append_clause:
  "foldl append_clause h cs = h @ concat (map (\<lambda>c. clause_markup (shown_clause_label c) c) cs)"
  by (induction cs arbitrary: h) (simp_all add: append_clause_markup)

lemma displayResults_html_sections:
  "displayResults_html data =
     decision_section data @ conditions_section data @ clauses_section shown_clause_label data"
  by (cases "conditions data"; cases "referenced_clauses data")
     (simp_all add: displayResults_html_def decision_section_def conditions_section_def
        clauses_section_def foldl_append_clause truthy_def Let_def)

text \<open>
  Claim C1, as stated: the decision text \<open>Not approved\<close> is classified into the negative
  category. It is not: lower-cased, the text contains \<open>approved\<close>, and that test comes
  first, so the class is not the negative one.
\<close>

theorem not_approved_is_not_negative: "decisionClass ''Not approved'' \<noteq> css_class Negative"
  by code_simp

text \<open>
  Claim C1, amended: the decision text \<open>Not approved\<close> is classified into the positive
  category, because the test for \<open>approved\<close> and \<open>covered\<close> is evaluated before the test
  for \<open>rejected\<close> and \<open>not\<close>: any text that passes the first test is positive, whatever
  else it contains.
\<close>

theorem not_approved_is_positive:
  "decisionClass ''Not approved'' = css_class Positive \<and>
   (js_includes (toLowerCase d) ''approved'' \<or> js_includes (toLowerCase d) ''covered''
      \<longrightarrow> decisionClass d = css_class Positive)"
proof -
  have "decisionClass ''Not approved'' = css_class Positive" by code_simp
  then show ?thesis by (simp add: approved_or_covered_first)
qed

text \<open>The same at \<open>Not covered\<close>, which passes both tests.\<close>

theorem not_approved_is_positive_witness:
  "js_includes (toLowerCase ''Not covered'') ''covered'' \<and>
   js_includes (toLowerCase ''Not covered'') ''not'' \<and>
   decisionClass ''Not covered'' = css_class Positive"
proof -
  have a: "js_includes (toLowerCase ''Not covered'') ''covered''" by code_simp
  have b: "js_includes (toLowerCase ''Not covered'') ''not''" by code_simp
  from not_approved_is_positive [where d = "''Not covered''"] a b show ?thesis by simp
qed

text \<open>
  Claim C2: the renderer classifies the decision text case-insensitively. If the text
  contains \<open>approved\<close> or \<open>covered\<close> the category is positive; otherwise, if it contains
  \<open>rejected\<close> or \<open>not\<close>, negative; otherwise neutral. The class computed by the script is
  the class of the category the rule gives, and it is the class in the markup that
  \<open>displayResults\<close> writes.
\<close>

theorem decisionClass_follows_rule:
  \<open>decisionClass (decision data) = css_class (spec_category (decision data)) \<and>
   prefix (''\<newline>            <div class="decision '' @ css_class (spec_category (decision data)) @ ''">'')
     (resultsContent_innerHTML (displayResults data s))\<close>
proof -
  have cls: "decisionClass d = css_class (spec_category d)" for d
    by (simp add: decisionClass_def spec_category_def includes_toLowerCase keywords_lower_case)
  have "resultsContent_innerHTML (displayResults data s) =
          decision_section data @ conditions_section data @ clauses_section shown_clause_label data"
    by (simp add: displayResults_def displayResults_html_sections)
  then show ?thesis by (simp add: cls decision_section_def)
qed

theorem decisionClass_follows_rule_witness:
  "css_class (spec_category (decision (example_response\<lparr>decision := ''Claim REJECTED''\<rparr>))) = ''Rejected''"
proof -
  have "decisionClass ''Claim REJECTED'' = ''Rejected''" by code_simp
  with decisionClass_follows_rule [of "example_response\<lparr>decision := ''Claim REJECTED''\<rparr>"]
  show ?thesis by simp
qed

subsection \<open>The upload handler\<close>

lemma handleUpload_no_file:
  "fileInput_files s = [] \<Longrightarrow>
   handleUpload now outcome s =
     s\<lparr>uploadStatus_textContent := ''Please select a file first.'', uploadStatus_color := ''red''\<rparr>"
  by (simp add: handleUpload_def handleUpload_start_def)

lemma handleUpload_file:
  "fileInput_files s = f # fs \<Longrightarrow>
   handleUpload now outcome s =
     handleUpload_settle outcome
       (s\<lparr>sessionId := Some (''session_'' @ number_toString now),
          uploadStatus_textContent := ''Uploading and processing...'',
          uploadStatus_color := ''orange'',
          requests := requests s @ [upload_request f (''session_'' @ number_toString now)]\<rparr>)"
  by (simp add: handleUpload_def handleUpload_start_def Let_def)


lemma page_with_file_files: "fileInput_files page_with_file = [File ''policy.pdf'']"
  by (simp add: page_with_file_def example_page_def)

text \<open>
  Claim C3: if no file is selected when the upload handler is invoked, it performs no
  network call (it returns before \<open>fetch\<close>, and the log of requests is as before), sets
  the status text to the message that asks to select a file, and leaves the session
  identifier unchanged.
\<close>

theorem upload_without_file:
  assumes "fileInput_files s = []"
  shows "snd (handleUpload_start now s) = None \<and>
         requests (handleUpload now outcome s) = requests s \<and>
         uploadStatus_textContent (handleUpload now outcome s) = ''Please select a file first.'' \<and>
         sessionId (handleUpload now outcome s) = sessionId s"
  using assms by (simp add: handleUpload_no_file handleUpload_start_def)

theorem upload_without_file_witness:
  "fileInput_files example_page = [] \<and>
   requests (handleUpload 1700000000000 (FetchRejects ''Failed to fetch'') example_page) = [] \<and>
   uploadStatus_textContent (handleUpload 1700000000000 (FetchRejects ''Failed to fetch'') example_page)
     = ''Please select a file first.'' \<and>
   sessionId (handleUpload 1700000000000 (FetchRejects ''Failed to fetch'') example_page) = None"
proof -
  have h: "fileInput_files example_page = []" by (simp add: example_page_def)
  from upload_without_file [OF h, of 1700000000000 "FetchRejects ''Failed to fetch''"] h
  show ?thesis by (simp add: example_page_def)
qed

text \<open>
  Claim C6: on a successful upload response with body \<open>{message: "Ready"}\<close>, the status
  text becomes \<open>Ready\<close>, the query section becomes visible (its \<open>display\<close> is \<open>block\<close>),
  and the question input receives focus.
\<close>

theorem upload_success_ready:
  assumes "fileInput_files s \<noteq> []"
  shows "uploadStatus_textContent
           (handleUpload now (ResponseOk (JsonValue \<lparr>message = ''Ready''\<rparr>)) s) = ''Ready'' \<and>
         queryCard_display
           (handleUpload now (ResponseOk (JsonValue \<lparr>message = ''Ready''\<rparr>)) s) = ''block'' \<and>
         activeElement
           (handleUpload now (ResponseOk (JsonValue \<lparr>message = ''Ready''\<rparr>)) s)
           = Some ''question-input''"
proof -
  from assms obtain f fs where "fileInput_files s = f # fs"
    by (cases "fileInput_files s") auto
  then show ?thesis
    by (simp add: handleUpload_file handleUpload_settle_def handleUpload_try_def)
qed

theorem upload_success_ready_witness:
  "fileInput_files page_with_file \<noteq> [] \<and>
   uploadStatus_textContent
     (handleUpload 1700000000000 (ResponseOk (JsonValue \<lparr>message = ''Ready''\<rparr>)) page_with_file)
     = ''Ready'' \<and>
   queryCard_display
     (handleUpload 1700000000000 (ResponseOk (JsonValue \<lparr>message = ''Ready''\<rparr>)) page_with_file)
     = ''block''"
proof -
  have h: "fileInput_files page_with_file \<noteq> []" by (simp add: page_with_file_files)
  from upload_success_ready [OF h, of 1700000000000] h show ?thesis by simp
qed

text \<open>
  Claim C7: on an upload response with a non-success status and body
  \<open>{detail: "bad file"}\<close>, the status text becomes \<open>Error: bad file\<close>; when the failure
  body carries no \<open>detail\<close> field, the generic message \<open>Upload failed\<close> is used instead.
\<close>

theorem upload_failure_status:
  assumes "fileInput_files s \<noteq> []"
  shows "uploadStatus_textContent
           (handleUpload now (ResponseNotOk (JsonValue \<lparr>detail = Some ''bad file''\<rparr>)) s)
           = ''Error: bad file'' \<and>
         uploadStatus_textContent
           (handleUpload now (ResponseNotOk (JsonValue \<lparr>detail = None\<rparr>)) s)
           = ''Error: Upload failed''"
proof -
  from assms obtain f fs where "fileInput_files s = f # fs"
    by (cases "fileInput_files s") auto
  then show ?thesis
    by (simp add: handleUpload_file handleUpload_settle_def handleUpload_try_def or_else_def)
qed

theorem upload_failure_status_witness:
  "fileInput_files page_with_file \<noteq> [] \<and>
   uploadStatus_textContent
     (handleUpload 1700000000000 (ResponseNotOk (JsonValue \<lparr>detail = Some ''bad file''\<rparr>))
        page_with_file)
     = ''Error: bad file'' \<and>
   uploadStatus_textContent
     (handleUpload 1700000000000 (ResponseNotOk (JsonValue \<lparr>detail = None\<rparr>)) page_with_file)
     = ''Error: Upload failed''"
proof -
  have h: "fileInput_files page_with_file \<noteq> []" by (simp add: page_with_file_files)
  from upload_failure_status [OF h, of 1700000000000] h show ?thesis by simp
qed

subsection \<open>The query handler\<close>

lemma trim_Nil: "trim [] = []"
  by (simp add: trim_def)

lemma trim_all_whitespace: "\<forall>c \<in> set v. is_whitespace c \<Longrightarrow> trim v = []"
proof -
  assume "\<forall>c \<in> set v. is_whitespace c"
  then have "dropWhile is_whitespace v = []" by simp
  then show ?thesis by (simp only: trim_def rev.simps dropWhile.simps)
qed

lemma trim_strips:
  assumes "\<forall>c \<in> set ws1. is_whitespace c" "\<forall>c \<in> set ws2. is_whitespace c"
    and "core \<noteq> []" "\<not> is_whitespace (hd core)" "\<not> is_whitespace (last core)"
  shows "trim (ws1 @ core @ ws2) = core"
proof -
  have a: "dropWhile is_whitespace (ws1 @ core @ ws2) = core @ ws2"
    using assms by (cases core) (simp_all add: dropWhile_append)
  have b: "dropWhile is_whitespace (rev ws2 @ rev core) = rev core"
    using assms by (cases core rule: rev_cases) (simp_all add: dropWhile_append)
  show ?thesis by (simp add: trim_def a b)
qed

lemma handleQuery_no_question:
  "trim (questionInput_value s) = [] \<Longrightarrow>
   handleQuery outcome s = s\<lparr>alerts := alerts s @ [''Please enter a question.'']\<rparr>"
  by (simp add: handleQuery_def handleQuery_start_def)

lemma handleQuery_no_session:
  "trim (questionInput_value s) \<noteq> [] \<Longrightarrow> \<not> truthy (sessionId s) \<Longrightarrow>
   handleQuery outcome s = s\<lparr>alerts := alerts s @ [''Please upload a document first.'']\<rparr>"
  by (simp add: handleQuery_def handleQuery_start_def)

lemma handleQuery_start_blocked:
  "trim (questionInput_value s) = [] \<or> \<not> truthy (sessionId s) \<Longrightarrow>
   snd (handleQuery_start s) = None"
  by (auto simp add: handleQuery_start_def Let_def)

lemma handleQuery_start_issues:
  "trim (questionInput_value s) \<noteq> [] \<Longrightarrow> sessionId s = Some sid \<Longrightarrow> sid \<noteq> [] \<Longrightarrow>
   handleQuery_start s =
     (s\<lparr>resultsCard_display := ''block'', loader_display := ''block'',
        resultsContent_innerHTML := '''',
        requests := requests s @ [query_request sid (trim (questionInput_value s))]\<rparr>,
      Some (query_request sid (trim (questionInput_value s))))"
  by (simp add: handleQuery_start_def truthy_def Let_def)

lemma page_with_session_trim:
  "trim (questionInput_value page_with_session) = ''Is knee surgery covered?''"
  by (simp add: page_with_session_def example_page_def trim_def is_whitespace_def)

text \<open>
  Claim C4: if the question is empty, or no session identifier exists, the query
  handler triggers a blocking prompt (one \<open>alert\<close>) and returns without performing any
  network call and without modifying the results area; nothing but the log of alerts
  changes.
\<close>

theorem query_blocked:
  assumes "questionInput_value s = [] \<or> sessionId s = None"
  shows "snd (handleQuery_start s) = None \<and>
         (\<exists>msg. handleQuery outcome s = s\<lparr>alerts := alerts s @ [msg]\<rparr>) \<and>
         requests (handleQuery outcome s) = requests s \<and>
         resultsContent_innerHTML (handleQuery outcome s) = resultsContent_innerHTML s"
proof -
  have blocked: "trim (questionInput_value s) = [] \<or> \<not> truthy (sessionId s)"
    using assms by (auto simp: trim_Nil truthy_def)
  then have none: "snd (handleQuery_start s) = None"
    by (rule handleQuery_start_blocked)
  from blocked obtain msg where step: "handleQuery outcome s = s\<lparr>alerts := alerts s @ [msg]\<rparr>"
    using handleQuery_no_question handleQuery_no_session by blast
  then have "\<exists>msg. handleQuery outcome s = s\<lparr>alerts := alerts s @ [msg]\<rparr>" by blast
  with none step show ?thesis by simp
qed

text \<open>An empty question with a session, and a question without a session.\<close>

theorem query_blocked_witness:
  "alerts (handleQuery (FetchRejects ''Failed to fetch'') (page_with_session\<lparr>questionInput_value := []\<rparr>))
     = [''Please enter a question.''] \<and>
   requests (handleQuery (FetchRejects ''Failed to fetch'') (page_with_session\<lparr>questionInput_value := []\<rparr>))
     = [] \<and>
   alerts (handleQuery (FetchRejects ''Failed to fetch'') (example_page\<lparr>questionInput_value := ''Is it?''\<rparr>))
     = [''Please upload a document first.''] \<and>
   requests (handleQuery (FetchRejects ''Failed to fetch'') (example_page\<lparr>questionInput_value := ''Is it?''\<rparr>))
     = []"
proof -
  let ?a = "page_with_session\<lparr>questionInput_value := []\<rparr>"
  let ?b = "example_page\<lparr>questionInput_value := ''Is it?''\<rparr>"
  let ?out = "FetchRejects ''Failed to fetch'' :: query_response fetch_outcome"
  have ha: "questionInput_value ?a = [] \<or> sessionId ?a = None" by simp
  have hb: "questionInput_value ?b = [] \<or> sessionId ?b = None" by (simp add: example_page_def)
  have ta: "trim (questionInput_value ?a) = []" by (simp add: trim_def)
  have tb: "trim (questionInput_value ?b) \<noteq> []" by (simp add: trim_def is_whitespace_def)
  have sb: "\<not> truthy (sessionId ?b)" by (simp add: example_page_def truthy_def)
  have a: "alerts (handleQuery ?out ?a) = [''Please enter a question.'']"
    using handleQuery_no_question [OF ta, of ?out]
    by (simp add: page_with_session_def example_page_def)
  have b: "alerts (handleQuery ?out ?b) = [''Please upload a document first.'']"
    using handleQuery_no_session [OF tb sb, of ?out]
    by (simp add: example_page_def)
  from query_blocked [OF ha, of ?out] query_blocked [OF hb, of ?out] a b
  show ?thesis by (simp add: page_with_session_def example_page_def)
qed

text \<open>
  Claim C5: for every query call that reaches the network layer, the loading indicator
  is hidden when the call settles, on the success path and on every failure path; on
  failure (\<open>fetch\<close> rejects, \<open>response.json()\<close> rejects, or the status is not a success)
  an inline error message containing the error text replaces the results area.
\<close>

theorem query_settles:
  assumes "snd (handleQuery_start s) \<noteq> None"
  shows \<open>loader_display (handleQuery outcome s) = ''none'' \<and>
         resultsContent_innerHTML (handleQuery (FetchRejects msg) s)
           = ''<p style="color:red;">Error: '' @ msg @ ''</p>'' \<and>
         resultsContent_innerHTML (handleQuery (ResponseNotOk (JsonRejects msg)) s)
           = ''<p style="color:red;">Error: '' @ msg @ ''</p>'' \<and>
         resultsContent_innerHTML (handleQuery (ResponseOk (JsonRejects msg)) s)
           = ''<p style="color:red;">Error: '' @ msg @ ''</p>'' \<and>
         resultsContent_innerHTML (handleQuery (ResponseNotOk (JsonValue e)) s)
           = ''<p style="color:red;">Error: '' @ or_else (detail e) ''Query failed'' @ ''</p>''\<close>
proof -
  from assms obtain s1 req where "handleQuery_start s = (s1, Some req)"
    by (cases "handleQuery_start s") auto
  then have settle: "handleQuery out s = handleQuery_settle out s1" for out
    by (simp add: handleQuery_def)
  have "loader_display (handleQuery_settle outcome s1) = ''none''"
    by (simp add: handleQuery_settle_def Let_def)
  then show ?thesis
    by (simp add: settle handleQuery_settle_def handleQuery_try_def)
qed

theorem query_settles_witness:
  \<open>snd (handleQuery_start page_with_session) \<noteq> None \<and>
   loader_display (handleQuery (ResponseOk (JsonValue example_response)) page_with_session)
     = ''none'' \<and>
   loader_display (handleQuery (FetchRejects ''Failed to fetch'') page_with_session) = ''none'' \<and>
   resultsContent_innerHTML (handleQuery (FetchRejects ''Failed to fetch'') page_with_session)
     = ''<p style="color:red;">Error: Failed to fetch</p>'' \<and>
   resultsContent_innerHTML
     (handleQuery (ResponseNotOk (JsonValue \<lparr>detail = Some ''No such session''\<rparr>)) page_with_session)
     = ''<p style="color:red;">Error: No such session</p>''\<close>
proof -
  have h: "snd (handleQuery_start page_with_session) \<noteq> None"
    by (simp add: handleQuery_start_def Let_def page_with_session_trim)
       (simp add: page_with_session_def example_page_def truthy_def)
  from query_settles [OF h, of "ResponseOk (JsonValue example_response)" "''Failed to fetch''"
      "\<lparr>detail = Some ''No such session''\<rparr>"]
    query_settles [OF h, of "FetchRejects ''Failed to fetch''"] h
  show ?thesis by (simp add: or_else_def)
qed









text \<open>
  Claim C10: the query handler trims the question text before checking it. A question
  of white space only is treated as empty: the blocking prompt, no network call. The
  \<open>question\<close> field of the request body is the trimmed text: the input value without the
  white space before and after it, not the raw value.
\<close>

theorem query_trims_question:
  "((\<forall>c \<in> set (questionInput_value s). is_whitespace c) \<longrightarrow>
      snd (handleQuery_start s) = None \<and>
      requests (handleQuery outcome s) = requests s \<and>
      handleQuery outcome s = s\<lparr>alerts := alerts s @ [''Please enter a question.'']\<rparr>) \<and>
   (trim (questionInput_value s) \<noteq> [] \<and> sessionId s = Some sid \<and> sid \<noteq> [] \<longrightarrow>
      snd (handleQuery_start s)
        = Some \<lparr>url = ''http://127.0.0.1:8000/query/'', http_method = ''POST'',
                headers = [(''Content-Type'', ''application/json'')],
                body = JsonObject [(''session_id'', sid),
                                   (''question'', trim (questionInput_value s))]\<rparr> \<and>
      requests (fst (handleQuery_start s))
        = requests s @
          [\<lparr>url = ''http://127.0.0.1:8000/query/'', http_method = ''POST'',
            headers = [(''Content-Type'', ''application/json'')],
            body = JsonObject [(''session_id'', sid),
                               (''question'', trim (questionInput_value s))]\<rparr>]) \<and>
   (questionInput_value s = ws1 @ core @ ws2 \<and> (\<forall>c \<in> set (ws1 @ ws2). is_whitespace c) \<and>
    core \<noteq> [] \<and> \<not> is_whitespace (hd core) \<and> \<not> is_whitespace (last core) \<longrightarrow>
      trim (questionInput_value s) = core \<and>
      (sessionId s = Some sid \<and> sid \<noteq> [] \<longrightarrow>
         body (the (snd (handleQuery_start s)))
           = JsonObject [(''session_id'', sid), (''question'', core)]))"
proof (intro conjI impI)
  assume "\<forall>c \<in> set (questionInput_value s). is_whitespace c"
  then have "trim (questionInput_value s) = []" by (rule trim_all_whitespace)
  then show "snd (handleQuery_start s) = None"
    and "requests (handleQuery outcome s) = requests s"
    and "handleQuery outcome s = s\<lparr>alerts := alerts s @ [''Please enter a question.'']\<rparr>"
    by (simp_all add: handleQuery_no_question handleQuery_start_blocked)
next
  assume a: "trim (questionInput_value s) \<noteq> [] \<and> sessionId s = Some sid \<and> sid \<noteq> []"
  then show "snd (handleQuery_start s)
        = Some \<lparr>url = ''http://127.0.0.1:8000/query/'', http_method = ''POST'',
                headers = [(''Content-Type'', ''application/json'')],
                body = JsonObject [(''session_id'', sid),
                                   (''question'', trim (questionInput_value s))]\<rparr>"
    by (simp add: handleQuery_start_issues query_request_def API_BASE_URL_def)
  from a show "requests (fst (handleQuery_start s))
        = requests s @
          [\<lparr>url = ''http://127.0.0.1:8000/query/'', http_method = ''POST'',
            headers = [(''Content-Type'', ''application/json'')],
            body = JsonObject [(''session_id'', sid),
                               (''question'', trim (questionInput_value s))]\<rparr>]"
    by (simp add: handleQuery_start_issues query_request_def API_BASE_URL_def)
next
  assume a: "questionInput_value s = ws1 @ core @ ws2 \<and> (\<forall>c \<in> set (ws1 @ ws2). is_whitespace c) \<and>
    core \<noteq> [] \<and> \<not> is_whitespace (hd core) \<and> \<not> is_whitespace (last core)"
  then show t: "trim (questionInput_value s) = core"
    by (simp add: trim_strips)
  assume "sessionId s = Some sid \<and> sid \<noteq> []"
  with t a show "body (the (snd (handleQuery_start s)))
           = JsonObject [(''session_id'', sid), (''question'', core)]"
    by (simp add: handleQuery_start_issues query_request_def)
qed

text \<open>A question of three spaces, and a question with spaces around it.\<close>

theorem query_trims_question_witness:
  "handleQuery (FetchRejects ''Failed to fetch'') (page_with_session\<lparr>questionInput_value := ''   ''\<rparr>)
     = page_with_session\<lparr>questionInput_value := ''   '', alerts := [''Please enter a question.'']\<rparr> \<and>
   questionInput_value page_with_session = ''  '' @ ''Is knee surgery covered?'' @ '' '' \<and>
   trim (questionInput_value page_with_session) = ''Is knee surgery covered?'' \<and>
   snd (handleQuery_start page_with_session)
     = Some \<lparr>url = ''http://127.0.0.1:8000/query/'', http_method = ''POST'',
             headers = [(''Content-Type'', ''application/json'')],
             body = JsonObject [(''session_id'', ''session_1700000000000''),
                                (''question'', ''Is knee surgery covered?'')]\<rparr>"
proof -
  let ?blank = "page_with_session\<lparr>questionInput_value := ''   ''\<rparr>"
  let ?core = "''Is knee surgery covered?''"
  have a: "\<forall>c \<in> set (questionInput_value ?blank). is_whitespace c"
    by (simp add: is_whitespace_def)
  have c: "questionInput_value page_with_session = ''  '' @ ?core @ '' '' \<and>
           (\<forall>c \<in> set (''  '' @ '' ''). is_whitespace c) \<and> ?core \<noteq> [] \<and>
           \<not> is_whitespace (hd ?core) \<and> \<not> is_whitespace (last ?core)"
    by (simp add: page_with_session_def is_whitespace_def)
  from query_trims_question [of ?blank "FetchRejects ''Failed to fetch''"] a
  have 1: "handleQuery (FetchRejects ''Failed to fetch'') ?blank
             = page_with_session\<lparr>questionInput_value := ''   '',
                 alerts := [''Please enter a question.'']\<rparr>"
    by (simp add: page_with_session_def example_page_def)
  from query_trims_question [of page_with_session _ _ "''  ''" ?core "'' ''"] c
  have 2: "trim (questionInput_value page_with_session) = ?core"
    by blast
  have b: "trim (questionInput_value page_with_session) \<noteq> [] \<and>
           sessionId page_with_session = Some ''session_1700000000000'' \<and>
           ''session_1700000000000'' \<noteq> []"
    by (simp add: 2) (simp add: page_with_session_def)
  from query_trims_question [of page_with_session _ "''session_1700000000000''"] b
  have 3: "snd (handleQuery_start page_with_session)
             = Some \<lparr>url = ''http://127.0.0.1:8000/query/'', http_method = ''POST'',
                     headers = [(''Content-Type'', ''application/json'')],
                     body = JsonObject [(''session_id'', ''session_1700000000000''),
                                        (''question'', ?core)]\<rparr>"
    by (simp add: 2)
  from 1 2 3 c show ?thesis by simp
qed

subsection \<open>The rendered response\<close>

text \<open>
  Claim C8, as stated: each clause is rendered with its clause number, or with a
  placeholder when the number is absent. It fails for a clause whose number is present
  and empty: the script shows the placeholder \<open>N/A\<close> for it, where the claim has the
  (empty) number.
\<close>

theorem empty_clause_number_shows_placeholder:
  "displayResults_html response_with_empty_number \<noteq>
     decision_section response_with_empty_number
       @ conditions_section response_with_empty_number
       @ clauses_section spec_clause_label response_with_empty_number"
  by (simp add: displayResults_html_sections)
     (simp add: response_with_empty_number_def clauses_section_def clause_markup_def
        spec_clause_label_def shown_clause_label_def)

text \<open>
  Claim C8, amended: the section of referenced clauses is rendered only when the
  sequence is present and non-empty; each clause is rendered in the order received
  with its clause number (or a placeholder when the number is absent or empty), its
  source document name, and its quoted text; the conditions text is rendered only when
  present.
\<close>

theorem displayResults_sections:
  "resultsContent_innerHTML (displayResults data s) =
     decision_section data @ conditions_section data @ clauses_section shown_clause_label data \<and>
   (clauses_section shown_clause_label data \<noteq> [] \<longrightarrow>
      (\<exists>cs. referenced_clauses data = Some cs \<and> cs \<noteq> [])) \<and>
   (conditions_section data \<noteq> [] \<longrightarrow> conditions data \<noteq> None)"
proof -
  have "clauses_section shown_clause_label data \<noteq> [] \<longrightarrow>
          (\<exists>cs. referenced_clauses data = Some cs \<and> cs \<noteq> [])"
    by (cases "referenced_clauses data") (auto simp add: clauses_section_def)
  moreover have "conditions_section data \<noteq> [] \<longrightarrow> conditions data \<noteq> None"
    by (cases "conditions data") (auto simp add: conditions_section_def)
  ultimately show ?thesis
    by (simp add: displayResults_def displayResults_html_sections)
qed

text \<open>A response with conditions and two clauses, the second without a number.\<close>

theorem displayResults_sections_witness:
  \<open>clauses_section shown_clause_label example_response \<noteq> [] \<and>
   conditions_section example_response \<noteq> [] \<and>
   resultsContent_innerHTML (displayResults example_response example_page) =
     ''\<newline>            <div class="decision Approved">Approved</div>\<newline>            <h3>Justification</h3>\<newline>            <p>In scope.</p>\<newline>        \<newline>                <h3>Conditions</h3>\<newline>                <p>Pre-authorisation required.</p>\<newline>            <h3>Referenced Clauses</h3>\<newline>                    <div class="referenced-clause">\<newline>                        <strong>Clause 4.2 (from policy.pdf)</strong>\<newline>                        <p>"Surgery"</p>\<newline>                    </div>\<newline>                \<newline>                    <div class="referenced-clause">\<newline>                        <strong>Clause N/A (from rider.pdf)</strong>\<newline>                        <p>"Knee"</p>\<newline>                    </div>\<newline>                ''\<close>
proof -
  have "decisionClass ''Approved'' = ''Approved''" by code_simp
  with displayResults_sections [of example_response example_page] show ?thesis
    by (simp add: example_response_def decision_section_def conditions_section_def
        clauses_section_def clause_markup_def shown_clause_label_def)
qed

end
